theory Spec2Isabelle
  imports Main "HOL-Library.Word"
begin

unbundle bit_operations_syntax

section \<open>The USB DFU class driver (usbdfu.c)\<close>

text \<open>
  A shallow embedding of \<^verbatim>\<open>usbdfu.c\<close>: the slot counter \<^verbatim>\<open>dfu_index\<close>, the device
  record life cycle (\<^verbatim>\<open>dfu_prepare\<close>, \<^verbatim>\<open>dfu_cleanup\<close>), the transfer engine
  (\<^verbatim>\<open>dfu_submit_urb\<close>, \<^verbatim>\<open>dfu_urb_timeout\<close>, \<^verbatim>\<open>dfu_ctrlurb_done\<close>) and the five
  protocol operations. C \<^verbatim>\<open>int\<close> is a 32-bit word read with \<open>sint\<close>; the kernel and the
  USB core are not part of the driver and appear as explicit parameters: what they
  answer to each call of the driver is given, what the driver calls is recorded.
\<close>

subsection \<open>Scalars and byte order\<close>

type_synonym u8 = "8 word"
type_synonym u16 = "16 word"
type_synonym u32 = "32 word"
type_synonym c_int = "32 word"

text \<open>A \<^verbatim>\<open>__le16\<close> is its two bytes in memory order: offset 0 first.\<close>

type_synonym le16 = "u8 \<times> u8"

definition cpu_to_le16 :: "u16 \<Rightarrow> le16" where
  "cpu_to_le16 x = (ucast x, ucast (drop_bit 8 x))"

definition le16_to_cpu :: "le16 \<Rightarrow> u16" where
  "le16_to_cpu b = ucast (fst b) OR push_bit 8 (ucast (snd b))"

text \<open>The errno values of the kernel the driver returns negated.\<close>

definition ENOMEM :: c_int where
  "ENOMEM = 12"

definition ENODEV :: c_int where
  "ENODEV = 19"

text \<open>\<^verbatim>\<open>atomic_inc_return\<close> and \<^verbatim>\<open>atomic_dec\<close> on the value of an \<^verbatim>\<open>atomic_t\<close>: the new
  value (which \<^verbatim>\<open>atomic_inc_return\<close> also returns); both wrap.\<close>

definition atomic_inc_return :: "c_int \<Rightarrow> c_int" where
  "atomic_inc_return v = v + 1"

definition atomic_dec :: "c_int \<Rightarrow> c_int" where
  "atomic_dec v = v - 1"

text \<open>\<^verbatim>\<open>MAJOR\<close> and \<^verbatim>\<open>MKDEV\<close> of the kernel, with its 20 minor bits.\<close>

definition MAJOR :: "u32 \<Rightarrow> u32" where
  "MAJOR dev = drop_bit 20 dev"

definition MKDEV :: "u32 \<Rightarrow> u32 \<Rightarrow> u32" where
  "MKDEV ma mi = push_bit 20 ma OR mi"

subsection \<open>The header and the module parameters\<close>

text \<open>
  Modelled from the spec: \<^verbatim>\<open>usbdfu.h\<close> is not among the sources, so the constants it
  defines are parameters of every function that uses them. Nothing is assumed about
  their values.
\<close>

record usbdfu_h =
  USB_DFU_FUNC_DSCLEN :: c_int
  USB_DFU_FUNC_DSCTYP :: u8
  USB_DFU_ERROR_CODE :: c_int
  USB_DFU_DETACH :: u8
  USB_DFU_ABORT :: u8
  USB_DFU_GETSTATUS :: u8
  USB_DFU_GETSTATE :: u8
  USB_DFU_CLRSTATUS :: u8

text \<open>The module parameters \<^verbatim>\<open>max_dfus\<close>, \<^verbatim>\<open>urb_timeout\<close> and \<^verbatim>\<open>detach_timeout\<close>.\<close>

record params =
  max_dfus :: c_int
  urb_timeout :: c_int
  detach_timeout :: c_int

definition default_params :: params where
  "default_params = \<lparr>max_dfus = 8, urb_timeout = 200, detach_timeout = 2000\<rparr>"

subsection \<open>Data\<close>

text \<open>
  Modelled from the spec: \<^verbatim>\<open>struct dfufdsc\<close>, the functional descriptor as
  \<^verbatim>\<open>dfu_prepare\<close> reads it through its cast of \<^verbatim>\<open>extra\<close>: the descriptor-type tag, the
  capability bitmap, and the little-endian detach timeout and transfer size.
\<close>

record dfufdsc =
  dsctyp :: u8
  fd_attr :: u8
  tmout :: le16
  fd_xfersize :: le16

text \<open>What \<^verbatim>\<open>dfu_prepare\<close> reads of a \<^verbatim>\<open>struct usb_interface\<close>: its identity, the
  \<^verbatim>\<open>extra\<close> pointer (\<open>None\<close> is \<^verbatim>\<open>NULL\<close>) and \<^verbatim>\<open>extralen\<close> of the current setting, the
  interface number, the device it belongs to and whether that device's controller has
  a DMA mask.\<close>

record usb_interface =
  intf_id :: nat
  extra :: "dfufdsc option"
  extralen :: c_int
  bInterfaceNumber :: u8
  parent_usbdev :: nat
  dma_mask :: bool

text \<open>
  Modelled from the spec: \<^verbatim>\<open>struct dfu_device\<close>, with the fields \<^verbatim>\<open>dfu_prepare\<close> sets
  (16-bit timeout, transfer size and interface number, a byte of capabilities).
  \<open>dfulock\<close> is the mutex: \<open>False\<close> when unlocked.
\<close>

record dfu_device =
  index :: c_int
  attr :: u8
  dettmout :: u16
  xfersize :: u16
  intf :: nat
  usbdev :: nat
  intfnum :: u16
  devnum :: u32
  dma :: c_int
  dfulock :: bool

text \<open>The 8-byte setup packet, \<^verbatim>\<open>struct usb_ctrlrequest\<close>.\<close>

record usb_ctrlrequest =
  bRequestType :: u8
  bRequest :: u8
  wValue :: le16
  wIndex :: le16
  wLength :: le16

text \<open>A control pipe: direction, device and endpoint.\<close>

datatype usb_pipe = Snd_ctrl nat nat | Rcv_ctrl nat nat

definition usb_sndctrlpipe :: "nat \<Rightarrow> nat \<Rightarrow> usb_pipe" where
  "usb_sndctrlpipe dev endpoint = Snd_ctrl dev endpoint"

definition usb_rcvctrlpipe :: "nat \<Rightarrow> nat \<Rightarrow> usb_pipe" where
  "usb_rcvctrlpipe dev endpoint = Rcv_ctrl dev endpoint"

text \<open>Where \<^verbatim>\<open>ctrl->buff\<close> points: nowhere, to the container's own status block or
  state byte, or to memory of the caller.\<close>

datatype buffer = Null_buff | DfuStatus_buff | DfuState_buff | Caller_buff nat

text \<open>What \<^verbatim>\<open>usb_fill_control_urb\<close> writes into a \<^verbatim>\<open>struct urb\<close>. The setup packet is
  held by reference to \<^verbatim>\<open>ctrl->req\<close>, which nothing changes before the submission:
  the record holds its content.\<close>

record urb =
  urb_dev :: nat
  urb_pipe :: usb_pipe
  setup_packet :: usb_ctrlrequest
  transfer_buffer :: buffer
  transfer_buffer_length :: c_int

definition usb_fill_control_urb ::
  "nat \<Rightarrow> usb_pipe \<Rightarrow> usb_ctrlrequest \<Rightarrow> buffer \<Rightarrow> c_int \<Rightarrow> urb" where
  "usb_fill_control_urb dev p setup b n =
     \<lparr>urb_dev = dev, urb_pipe = p, setup_packet = setup,
      transfer_buffer = b, transfer_buffer_length = n\<rparr>"

text \<open>
  Modelled from the spec: \<^verbatim>\<open>struct dfu_control\<close>. \<open>urb\<close> is \<open>None\<close> for \<^verbatim>\<open>NULL\<close>;
  \<open>urbdone\<close> is the completion: \<open>True\<close> once \<^verbatim>\<open>complete\<close> was called on it since its
  last \<^verbatim>\<open>init_completion\<close>. The status block has six bytes, the state one.
\<close>

record dfu_control =
  req :: usb_ctrlrequest
  pipe :: usb_pipe
  buff :: buffer
  len :: c_int
  urb :: "urb option"
  urbdone :: bool
  status :: c_int
  nxfer :: u32
  dfuStatus :: "u8 list"
  dfuState :: u8

subsection \<open>What the driver calls and logs\<close>

datatype kmsg =
    Cannot_allocate_URB
  | URB_cancelled u8 u8
  | URB_submit_failed u8 u8 c_int
  | URB_request_failed u8 u8 c_int
  | Need_reset_to_switch
  | Invalid_descriptor
  | Maximum_reached c_int

datatype event =
    Usb_alloc_urb
  | Usb_submit_urb urb
  | Wait_for_completion_timeout c_int
  | Usb_unlink_urb
  | Wait_for_completion
  | Ctrlurb_done c_int u32
  | Usb_free_urb
  | Dev_err kmsg
  | Dev_info kmsg

text \<open>A call either returns or stays blocked in a wait for ever; the events are those
  up to there, in order. \<open>Wait_for_completion_timeout\<close> carries the milliseconds that
  \<^verbatim>\<open>msecs_to_jiffies\<close> converts.\<close>

datatype 'a outcome = Returns 'a | Blocks

type_synonym 'a run = "'a outcome \<times> event list"

definition retval :: "(c_int \<times> dfu_control) run \<Rightarrow> c_int option" where
  "retval r = (case fst r of Returns (v, c) \<Rightarrow> Some v | Blocks \<Rightarrow> None)"

definition final_ctrl :: "(c_int \<times> dfu_control) run \<Rightarrow> dfu_control option" where
  "final_ctrl r = (case fst r of Returns (v, c) \<Rightarrow> Some c | Blocks \<Rightarrow> None)"

definition trace :: "'a run \<Rightarrow> event list" where
  "trace r = snd r"

text \<open>The waits and cancellations among the events of a call.\<close>

fun is_sync :: "event \<Rightarrow> bool" where
  "is_sync (Wait_for_completion_timeout t) = True"
| "is_sync Usb_unlink_urb = True"
| "is_sync Wait_for_completion = True"
| "is_sync e = False"

definition sync_events :: "event list \<Rightarrow> event list" where
  "sync_events tr = filter is_sync tr"

subsection \<open>The USB core, as the driver meets it\<close>

text \<open>
  One terminal state of a transfer: the \<^verbatim>\<open>status\<close> and \<^verbatim>\<open>actual_length\<close> of the urb the
  callback is given, and the bytes the controller wrote to the transfer buffer.
\<close>

record completion =
  c_status :: c_int
  c_actual :: u32
  c_data :: "u8 list"

text \<open>
  What the USB core does during one call of \<^verbatim>\<open>dfu_submit_urb\<close>: whether
  \<^verbatim>\<open>usb_alloc_urb\<close> finds memory, what \<^verbatim>\<open>usb_submit_urb\<close> returns, the completion that
  arrives within the bounded wait (\<open>None\<close>: \<^verbatim>\<open>wait_for_completion_timeout\<close> returns 0),
  and the one that arrives once the urb was unlinked (\<open>None\<close>: the callback is never
  called, and \<^verbatim>\<open>wait_for_completion\<close> never returns).
\<close>

record usb_core =
  alloc_ok :: bool
  submit_ret :: c_int
  before_timeout :: "completion option"
  after_unlink :: "completion option"

text \<open>The controller writing the received bytes to the buffer of the transfer.\<close>

definition usb_write_buffer :: "u8 list \<Rightarrow> dfu_control \<Rightarrow> dfu_control" where
  "usb_write_buffer bs ctrl =
     (case buff ctrl of
        DfuState_buff \<Rightarrow> (case bs of [] \<Rightarrow> ctrl | b # _ \<Rightarrow> ctrl\<lparr>dfuState := b\<rparr>)
      | DfuStatus_buff \<Rightarrow>
          ctrl\<lparr>dfuStatus := take 6 bs @ drop (length (take 6 bs)) (dfuStatus ctrl)\<rparr>
      | _ \<Rightarrow> ctrl)"

subsection \<open>The transfer engine\<close>

text \<open>\<^verbatim>\<open>dfu_ctrlurb_done\<close>, the completion callback, on the container that is the urb's
  context; its arguments are \<^verbatim>\<open>urb->status\<close> and \<^verbatim>\<open>urb->actual_length\<close>.\<close>

definition dfu_ctrlurb_done :: "c_int \<Rightarrow> u32 \<Rightarrow> dfu_control \<Rightarrow> dfu_control" where
  "dfu_ctrlurb_done urb_status actual_length ctrl =
     ctrl\<lparr>status := urb_status, nxfer := actual_length, urbdone := True\<rparr>"

text \<open>A completion arriving: the buffer is written, then the callback runs.\<close>

definition deliver :: "completion \<Rightarrow> dfu_control \<Rightarrow> dfu_control" where
  "deliver c ctrl = dfu_ctrlurb_done (c_status c) (c_actual c) (usb_write_buffer (c_data c) ctrl)"

text \<open>\<^verbatim>\<open>dfu_urb_timeout\<close>: unlink, then wait with no timeout.\<close>

definition dfu_urb_timeout ::
  "usbdfu_h \<Rightarrow> dfu_device \<Rightarrow> dfu_control \<Rightarrow> usb_core \<Rightarrow> dfu_control outcome \<times> event list" where
  "dfu_urb_timeout K dfudev ctrl core =
     (case after_unlink core of
        None \<Rightarrow> (Blocks, [Usb_unlink_urb, Wait_for_completion])
      | Some c \<Rightarrow>
          (Returns (deliver c ctrl),
           [Usb_unlink_urb, Wait_for_completion, Ctrlurb_done (c_status c) (c_actual c)] @
           (if bRequest (req ctrl) \<noteq> USB_DFU_ABORT K
            then [Dev_err (URB_cancelled (bRequestType (req ctrl)) (bRequest (req ctrl)))]
            else [])))"

text \<open>\<^verbatim>\<open>dfu_submit_urb\<close>.\<close>

definition dfu_submit_urb ::
  "usbdfu_h \<Rightarrow> params \<Rightarrow> dfu_device \<Rightarrow> dfu_control \<Rightarrow> usb_core \<Rightarrow> (c_int \<times> dfu_control) run" where
  "dfu_submit_urb K P dfudev ctrl core =
     (let alloc = (urb ctrl = None) in
      if alloc \<and> \<not> alloc_ok core then
        (Returns (- ENOMEM, ctrl), [Usb_alloc_urb, Dev_err Cannot_allocate_URB])
      else
        let u = usb_fill_control_urb (usbdev dfudev) (pipe ctrl) (req ctrl) (buff ctrl) (len ctrl);
            ctrl1 = ctrl\<lparr>urb := Some u, urbdone := False, status := USB_DFU_ERROR_CODE K\<rparr>;
            retusb = submit_ret core;
            tr1 = (if alloc then [Usb_alloc_urb] else []) @ [Usb_submit_urb u];
            (waited, tr2) =
              (if retusb = 0 then
                 (case before_timeout core of
                    Some c \<Rightarrow>
                      (Returns (deliver c ctrl1),
                       [Wait_for_completion_timeout (urb_timeout P),
                        Ctrlurb_done (c_status c) (c_actual c)])
                  | None \<Rightarrow>
                      (case dfu_urb_timeout K dfudev ctrl1 core of
                         (out, tr) \<Rightarrow> (out, Wait_for_completion_timeout (urb_timeout P) # tr)))
               else
                 (Returns ctrl1,
                  [Dev_err (URB_submit_failed (bRequestType (req ctrl1)) (bRequest (req ctrl1)) retusb)]))
        in
          (case waited of
             Blocks \<Rightarrow> (Blocks, tr1 @ tr2)
           | Returns ctrl2 \<Rightarrow>
               let ctrl3 = (if alloc then ctrl2\<lparr>urb := None\<rparr> else ctrl2);
                   tr3 = (if alloc then [Usb_free_urb] else []);
                   retv = status ctrl3;
                   tr4 = (if retv \<noteq> 0 \<and> bRequest (req ctrl3) \<noteq> USB_DFU_ABORT K
                          then [Dev_err (URB_request_failed (bRequestType (req ctrl3))
                                           (bRequest (req ctrl3)) (status ctrl3))]
                          else [])
               in (Returns (status ctrl3, ctrl3), tr1 @ tr2 @ tr3 @ tr4)))"

text \<open>The container \<^verbatim>\<open>dfu_submit_urb\<close> leaves when the transfer it submitted has completed
  with \<open>c\<close>, within the bounded wait or after the unlink.\<close>

definition completed :: "usbdfu_h \<Rightarrow> dfu_device \<Rightarrow> dfu_control \<Rightarrow> completion \<Rightarrow> dfu_control" where
  "completed K dev ctrl c =
     (let u = usb_fill_control_urb (usbdev dev) (pipe ctrl) (req ctrl) (buff ctrl) (len ctrl);
          ctrl2 = deliver c (ctrl\<lparr>urb := Some u, urbdone := False, status := USB_DFU_ERROR_CODE K\<rparr>)
      in if urb ctrl = None then ctrl2\<lparr>urb := None\<rparr> else ctrl2)"

subsection \<open>The protocol operations\<close>

text \<open>Each operation is its assignments to the container, then \<^verbatim>\<open>dfu_submit_urb\<close>.
  The assignments of \<^verbatim>\<open>dfu_do_switch\<close>: \<open>tmout\<close> is an \<^verbatim>\<open>int\<close>, compared as such with
  the promoted 16-bit \<^verbatim>\<open>dettmout\<close>, and \<^verbatim>\<open>cpu_to_le16\<close> keeps its low 16 bits.\<close>

definition switch_request :: "usbdfu_h \<Rightarrow> params \<Rightarrow> dfu_device \<Rightarrow> dfu_control \<Rightarrow> dfu_control" where
  "switch_request K P dfudev ctrl =
     (let tmout = (if sint (detach_timeout P) < uint (dettmout dfudev)
                   then detach_timeout P else (ucast (dettmout dfudev) :: c_int))
      in ctrl\<lparr>req := (req ctrl)\<lparr>bRequestType := 0x21, bRequest := USB_DFU_DETACH K,
                                wIndex := cpu_to_le16 (intfnum dfudev),
                                wValue := cpu_to_le16 (ucast tmout),
                                wLength := cpu_to_le16 0\<rparr>,
               pipe := usb_sndctrlpipe (usbdev dfudev) 0,
               buff := Null_buff, len := 0, urb := None\<rparr>)"

definition dfu_do_switch ::
  "usbdfu_h \<Rightarrow> params \<Rightarrow> dfu_device \<Rightarrow> dfu_control \<Rightarrow> usb_core \<Rightarrow> (c_int \<times> dfu_control) run" where
  "dfu_do_switch K P dfudev ctrl core =
     (case dfu_submit_urb K P dfudev (switch_request K P dfudev ctrl) core of
        (Blocks, tr) \<Rightarrow> (Blocks, tr)
      | (Returns (retusb, ctrl'), tr) \<Rightarrow>
          (Returns (retusb, ctrl'),
           tr @ (if retusb = 0 \<and> attr dfudev AND 0x08 = 0
                 then [Dev_info Need_reset_to_switch] else [])))"

text \<open>The assignments of \<^verbatim>\<open>dfu_abort\<close>: \<^verbatim>\<open>wIndex\<close> is not among them.\<close>

definition abort_request :: "usbdfu_h \<Rightarrow> dfu_device \<Rightarrow> dfu_control \<Rightarrow> dfu_control" where
  "abort_request K dfudev ctrl =
     ctrl\<lparr>req := (req ctrl)\<lparr>bRequestType := 0x21, bRequest := USB_DFU_ABORT K,
                              wValue := cpu_to_le16 0, wLength := cpu_to_le16 0\<rparr>,
          pipe := usb_sndctrlpipe (usbdev dfudev) 0,
          buff := Null_buff, len := 0, urb := None\<rparr>"

definition dfu_abort ::
  "usbdfu_h \<Rightarrow> params \<Rightarrow> dfu_device \<Rightarrow> dfu_control \<Rightarrow> usb_core \<Rightarrow> (c_int \<times> dfu_control) run" where
  "dfu_abort K P dfudev ctrl core = dfu_submit_urb K P dfudev (abort_request K dfudev ctrl) core"

definition get_status_request :: "usbdfu_h \<Rightarrow> dfu_device \<Rightarrow> dfu_control \<Rightarrow> dfu_control" where
  "get_status_request K dfudev ctrl =
     ctrl\<lparr>req := (req ctrl)\<lparr>bRequestType := 0xa1, bRequest := USB_DFU_GETSTATUS K,
                              wIndex := cpu_to_le16 (intfnum dfudev),
                              wValue := cpu_to_le16 0, wLength := cpu_to_le16 6\<rparr>,
          pipe := usb_rcvctrlpipe (usbdev dfudev) 0,
          buff := DfuStatus_buff, len := 6, urb := None\<rparr>"

definition dfu_get_status ::
  "usbdfu_h \<Rightarrow> params \<Rightarrow> dfu_device \<Rightarrow> dfu_control \<Rightarrow> usb_core \<Rightarrow> (c_int \<times> dfu_control) run" where
  "dfu_get_status K P dfudev ctrl core =
     dfu_submit_urb K P dfudev (get_status_request K dfudev ctrl) core"

definition get_state_request :: "usbdfu_h \<Rightarrow> dfu_device \<Rightarrow> dfu_control \<Rightarrow> dfu_control" where
  "get_state_request K dfudev ctrl =
     ctrl\<lparr>req := (req ctrl)\<lparr>bRequestType := 0xa1, bRequest := USB_DFU_GETSTATE K,
                              wIndex := cpu_to_le16 (intfnum dfudev),
                              wValue := cpu_to_le16 0, wLength := cpu_to_le16 1\<rparr>,
          pipe := usb_rcvctrlpipe (usbdev dfudev) 0,
          buff := DfuState_buff, len := 1, urb := None\<rparr>"

text \<open>\<^verbatim>\<open>dfu_get_state\<close>: a zero from the engine is replaced by the state byte, widened
  to \<^verbatim>\<open>int\<close> without sign.\<close>

definition dfu_get_state ::
  "usbdfu_h \<Rightarrow> params \<Rightarrow> dfu_device \<Rightarrow> dfu_control \<Rightarrow> usb_core \<Rightarrow> (c_int \<times> dfu_control) run" where
  "dfu_get_state K P dfudev ctrl core =
     (case dfu_submit_urb K P dfudev (get_state_request K dfudev ctrl) core of
        (Blocks, tr) \<Rightarrow> (Blocks, tr)
      | (Returns (retv, ctrl'), tr) \<Rightarrow>
          (Returns (if retv = 0 then ucast (dfuState ctrl') else retv, ctrl'), tr))"

definition clr_status_request :: "usbdfu_h \<Rightarrow> dfu_device \<Rightarrow> dfu_control \<Rightarrow> dfu_control" where
  "clr_status_request K dfudev ctrl =
     ctrl\<lparr>req := (req ctrl)\<lparr>bRequestType := 0x21, bRequest := USB_DFU_CLRSTATUS K,
                              wIndex := cpu_to_le16 (intfnum dfudev),
                              wValue := cpu_to_le16 0, wLength := cpu_to_le16 0\<rparr>,
          pipe := usb_sndctrlpipe (usbdev dfudev) 0,
          buff := Null_buff, len := 0, urb := None\<rparr>"

definition dfu_clr_status ::
  "usbdfu_h \<Rightarrow> params \<Rightarrow> dfu_device \<Rightarrow> dfu_control \<Rightarrow> usb_core \<Rightarrow> (c_int \<times> dfu_control) run" where
  "dfu_clr_status K P dfudev ctrl core =
     dfu_submit_urb K P dfudev (clr_status_request K dfudev ctrl) core"

subsection \<open>The device record life cycle\<close>

text \<open>
  The driver's state between calls: the slot counter (\<^verbatim>\<open>ATOMIC_INIT(-1)\<close>), the device
  number region, the device records that \<^verbatim>\<open>kmalloc\<close> returned and \<^verbatim>\<open>kfree\<close> has not yet
  taken back, by address, the driver data of each interface (no entry is \<^verbatim>\<open>NULL\<close>),
  and the messages logged.
\<close>

record dfu_state =
  dfu_index :: c_int
  dfu_devnum :: u32
  heap :: "nat \<rightharpoonup> dfu_device"
  intfdata :: "nat \<rightharpoonup> nat"
  klog :: "event list"

definition init_state :: "u32 \<Rightarrow> dfu_state" where
  "init_state dn = \<lparr>dfu_index = - 1, dfu_devnum = dn, heap = Map.empty,
                    intfdata = Map.empty, klog = []\<rparr>"

text \<open>
  \<^verbatim>\<open>dfu_prepare\<close>. \<open>dfudevp\<close> is what \<^verbatim>\<open>*dfudevp\<close> holds at the call, \<open>km\<close> what \<^verbatim>\<open>kmalloc\<close>
  returns if called (\<open>None\<close> is \<^verbatim>\<open>NULL\<close>). The result is the return value, \<^verbatim>\<open>*dfudevp\<close>
  and the state afterwards.
\<close>

definition dfu_prepare ::
  "usbdfu_h \<Rightarrow> params \<Rightarrow> nat option \<Rightarrow> usb_interface \<Rightarrow> nat option \<Rightarrow> dfu_state
     \<Rightarrow> c_int \<times> nat option \<times> dfu_state" where
  "dfu_prepare K P dfudevp interface km s =
     (case extra interface of
        None \<Rightarrow> (- ENODEV, dfudevp, s\<lparr>klog := klog s @ [Dev_err Invalid_descriptor]\<rparr>)
      | Some dfufdsc \<Rightarrow>
          if extralen interface \<noteq> USB_DFU_FUNC_DSCLEN K \<or> dsctyp dfufdsc \<noteq> USB_DFU_FUNC_DSCTYP K
          then (- ENODEV, dfudevp, s\<lparr>klog := klog s @ [Dev_err Invalid_descriptor]\<rparr>)
          else
            let idx = atomic_inc_return (dfu_index s);
                s1 = s\<lparr>dfu_index := idx\<rparr>
            in if sint (max_dfus P) \<le> sint idx
               then (- ENODEV, dfudevp,
                     s1\<lparr>klog := klog s1 @ [Dev_err (Maximum_reached (max_dfus P))],
                        dfu_index := atomic_dec (dfu_index s1)\<rparr>)
               else
                 (case km of
                    None \<Rightarrow> (- ENOMEM, None, s1\<lparr>dfu_index := atomic_dec (dfu_index s1)\<rparr>)
                  | Some p \<Rightarrow>
                      let dfudev =
                            \<lparr>index = idx, attr = fd_attr dfufdsc,
                             dettmout = le16_to_cpu (tmout dfufdsc),
                             xfersize = le16_to_cpu (fd_xfersize dfufdsc),
                             intf = intf_id interface,
                             usbdev = parent_usbdev interface,
                             intfnum = ucast (bInterfaceNumber interface),
                             devnum = MKDEV (MAJOR (dfu_devnum s1)) idx,
                             dma = (if dma_mask interface then 1 else 0),
                             dfulock = False\<rparr>
                      in (0, Some p,
                          s1\<lparr>heap := (heap s1)(p \<mapsto> dfudev),
                             intfdata := (intfdata s1)(intf_id interface \<mapsto> p)\<rparr>)))"

text \<open>\<^verbatim>\<open>dfu_cleanup\<close>: the driver data is cleared, the record freed, the counter
  decremented.\<close>

definition dfu_cleanup :: "usb_interface \<Rightarrow> nat \<Rightarrow> dfu_state \<Rightarrow> dfu_state" where
  "dfu_cleanup interface dfudev s =
     s\<lparr>intfdata := (intfdata s)(intf_id interface := None),
       heap := (heap s)(dfudev := None),
       dfu_index := atomic_dec (dfu_index s)\<rparr>"

text \<open>The number of slots in use: the counter starts at -1 and is one below it.\<close>

definition slot_count :: "dfu_state \<Rightarrow> int" where
  "slot_count s = sint (dfu_index s) + 1"

text \<open>The descriptor check of \<^verbatim>\<open>dfu_prepare\<close> passes.\<close>

definition valid_descriptor :: "usbdfu_h \<Rightarrow> usb_interface \<Rightarrow> bool" where
  "valid_descriptor K interface =
     (case extra interface of
        None \<Rightarrow> False
      | Some d \<Rightarrow> extralen interface = USB_DFU_FUNC_DSCLEN K \<and> dsctyp d = USB_DFU_FUNC_DSCTYP K)"

text \<open>A run of \<^verbatim>\<open>dfu_prepare\<close> calls, one per interface and answer of \<^verbatim>\<open>kmalloc\<close>, that
  all return 0; \<open>None\<close> when one of them fails.\<close>

fun run_prepares ::
  "usbdfu_h \<Rightarrow> params \<Rightarrow> (usb_interface \<times> nat option) list \<Rightarrow> dfu_state \<Rightarrow> dfu_state option" where
  "run_prepares K P [] s = Some s"
| "run_prepares K P ((i, km) # cs) s =
     (case dfu_prepare K P None i km s of
        (retv, dp, s') \<Rightarrow> if retv = 0 then run_prepares K P cs s' else None)"

text \<open>Attach and detach events in sequence: an attach calls \<^verbatim>\<open>dfu_prepare\<close>, a detach
  calls \<^verbatim>\<open>dfu_cleanup\<close> with the driver data of the interface, as \<^verbatim>\<open>dfu_disconnect\<close>
  does; the USB core calls it only for an interface that has been prepared.\<close>

datatype lifecycle_op = Prepare usb_interface "nat option" | Cleanup usb_interface

fun run_ops :: "usbdfu_h \<Rightarrow> params \<Rightarrow> lifecycle_op list \<Rightarrow> dfu_state \<Rightarrow> dfu_state" where
  "run_ops K P [] s = s"
| "run_ops K P (Prepare i km # ops) s = run_ops K P ops (snd (snd (dfu_prepare K P None i km s)))"
| "run_ops K P (Cleanup i # ops) s =
     run_ops K P ops (case intfdata s (intf_id i) of None \<Rightarrow> s | Some p \<Rightarrow> dfu_cleanup i p s)"

subsection \<open>Concrete inputs\<close>

text \<open>A header with the request codes of the DFU class specification and the
  descriptor of the example of the specification: tag 0x21, length 9, attributes
  0x0D, timeout 255, transfer size 1024.\<close>

definition example_header :: usbdfu_h where
  "example_header =
     \<lparr>USB_DFU_FUNC_DSCLEN = 9, USB_DFU_FUNC_DSCTYP = 0x21, USB_DFU_ERROR_CODE = 65536,
      USB_DFU_DETACH = 0, USB_DFU_ABORT = 6, USB_DFU_GETSTATUS = 3, USB_DFU_GETSTATE = 5,
      USB_DFU_CLRSTATUS = 4\<rparr>"

definition example_intf :: "nat \<Rightarrow> usb_interface" where
  "example_intf n =
     \<lparr>intf_id = n,
      extra = Some \<lparr>dsctyp = 0x21, fd_attr = 0x0D, tmout = (0xFF, 0x00), fd_xfersize = (0x00, 0x04)\<rparr>,
      extralen = 9, bInterfaceNumber = 0, parent_usbdev = n, dma_mask = True\<rparr>"

definition example_dev :: dfu_device where
  "example_dev =
     \<lparr>index = 0, attr = 0x0D, dettmout = 5000, xfersize = 1024, intf = 0, usbdev = 0,
      intfnum = 0, devnum = 0, dma = 1, dfulock = False\<rparr>"

definition stale_ctrl :: dfu_control where
  "stale_ctrl =
     \<lparr>req = \<lparr>bRequestType = 0xa1, bRequest = 3, wValue = (0, 0), wIndex = (0x34, 0x12),
             wLength = (6, 0)\<rparr>,
      pipe = Rcv_ctrl 7 0, buff = DfuStatus_buff, len = 6, urb = None, urbdone = True,
      status = 0, nxfer = 6, dfuStatus = [0, 0, 0, 0, 2, 0], dfuState = 0\<rparr>"

definition example_core :: usb_core where
  "example_core =
     \<lparr>alloc_ok = True, submit_ret = 0, before_timeout = None, after_unlink = None\<rparr>"

text \<open>Two devices attached, the first detached, a third attached.\<close>

definition reuse_scenario :: dfu_state where
  "reuse_scenario =
     run_ops example_header default_params
       [Prepare (example_intf 1) (Some 100), Prepare (example_intf 2) (Some 200),
        Cleanup (example_intf 1), Prepare (example_intf 3) (Some 300)]
       (init_state 0)"

section \<open>Properties\<close>

subsection \<open>Arithmetic of the counter\<close>

lemma sint_inc: "sint (x :: c_int) < 2^31 - 1 \<Longrightarrow> sint (x + 1) = sint x + 1"
  using sint_ge[of x]
  by (simp add: sint_word_ariths signed_take_bit_int_eq_self)

lemma sint_dec: "- (2^31) < sint (x :: c_int) \<Longrightarrow> sint (x - 1) = sint x - 1"
  using sint_lt[of x]
  by (simp add: sint_word_ariths signed_take_bit_int_eq_self)

lemma atomic_dec_inc [simp]: "atomic_dec (atomic_inc_return v) = v"
  by (simp add: atomic_dec_def atomic_inc_return_def)

lemma sint_lt_max: "sint (x :: c_int) < sint (m :: c_int) \<Longrightarrow> sint x < 2^31 - 1"
  using sint_lt[of m] by simp

subsection \<open>The paths of \<^verbatim>\<open>dfu_prepare\<close>\<close>

lemma not_valid_descriptor_iff:
  "\<not> valid_descriptor K i \<longleftrightarrow>
     (extra i = None \<or> extralen i \<noteq> USB_DFU_FUNC_DSCLEN K \<or>
      (\<exists>d. extra i = Some d \<and> dsctyp d \<noteq> USB_DFU_FUNC_DSCTYP K))"
  by (auto simp: valid_descriptor_def split: option.splits)

lemma dfu_prepare_invalid:
  "\<not> valid_descriptor K i \<Longrightarrow>
   dfu_prepare K P dp i km s = (- ENODEV, dp, s\<lparr>klog := klog s @ [Dev_err Invalid_descriptor]\<rparr>)"
  by (auto simp: valid_descriptor_def dfu_prepare_def split: option.splits)

lemma dfu_prepare_full:
  "valid_descriptor K i \<Longrightarrow> sint (max_dfus P) \<le> sint (dfu_index s + 1) \<Longrightarrow>
   dfu_prepare K P dp i km s =
     (- ENODEV, dp, s\<lparr>klog := klog s @ [Dev_err (Maximum_reached (max_dfus P))]\<rparr>)"
  by (auto simp: valid_descriptor_def dfu_prepare_def Let_def atomic_inc_return_def atomic_dec_def split: option.splits)

lemma dfu_prepare_nomem:
  "valid_descriptor K i \<Longrightarrow> \<not> sint (max_dfus P) \<le> sint (dfu_index s + 1) \<Longrightarrow>
   dfu_prepare K P dp i None s = (- ENOMEM, None, s)"
  by (auto simp: valid_descriptor_def dfu_prepare_def Let_def atomic_inc_return_def atomic_dec_def split: option.splits)

lemma dfu_prepare_ok:
  "valid_descriptor K i \<Longrightarrow> \<not> sint (max_dfus P) \<le> sint (dfu_index s + 1) \<Longrightarrow>
   \<exists>d. dfu_prepare K P dp i (Some p) s =
     (0, Some p, s\<lparr>dfu_index := dfu_index s + 1, heap := (heap s)(p \<mapsto> d),
                   intfdata := (intfdata s)(intf_id i \<mapsto> p)\<rparr>) \<and> index d = dfu_index s + 1"
  by (auto simp: valid_descriptor_def dfu_prepare_def Let_def atomic_inc_return_def atomic_dec_def split: option.splits)

lemma dfu_prepare_cases:
  obtains (invalid) "\<not> valid_descriptor K i"
    "dfu_prepare K P dp i km s = (- ENODEV, dp, s\<lparr>klog := klog s @ [Dev_err Invalid_descriptor]\<rparr>)"
  | (full) "valid_descriptor K i" "sint (max_dfus P) \<le> sint (dfu_index s + 1)"
    "dfu_prepare K P dp i km s =
       (- ENODEV, dp, s\<lparr>klog := klog s @ [Dev_err (Maximum_reached (max_dfus P))]\<rparr>)"
  | (nomem) "valid_descriptor K i" "\<not> sint (max_dfus P) \<le> sint (dfu_index s + 1)" "km = None"
    "dfu_prepare K P dp i km s = (- ENOMEM, None, s)"
  | (ok) p d where "valid_descriptor K i" "\<not> sint (max_dfus P) \<le> sint (dfu_index s + 1)" "km = Some p"
    "dfu_prepare K P dp i km s =
     (0, Some p, s\<lparr>dfu_index := dfu_index s + 1, heap := (heap s)(p \<mapsto> d),
                   intfdata := (intfdata s)(intf_id i \<mapsto> p)\<rparr>)" "index d = dfu_index s + 1"
proof (cases "valid_descriptor K i")
  case False
  then show ?thesis using dfu_prepare_invalid invalid by blast
next
  case v: True
  show ?thesis
  proof (cases "sint (max_dfus P) \<le> sint (dfu_index s + 1)")
    case True
    then show ?thesis using v dfu_prepare_full full by blast
  next
    case nf: False
    show ?thesis
    proof (cases km)
      case None
      then show ?thesis using v nf dfu_prepare_nomem nomem by blast
    next
      case (Some p)
      then show ?thesis using v nf dfu_prepare_ok[OF v nf, of dp p] ok by blast
    qed
  qed
qed

lemma dfu_prepare_success_iff:
  "fst (dfu_prepare K P dp i km s) = 0 \<longleftrightarrow>
     valid_descriptor K i \<and> sint (dfu_index s + 1) < sint (max_dfus P) \<and> km \<noteq> None"
  by (rule dfu_prepare_cases[where K=K and i=i and P=P and s=s and dp=dp and km=km])
     (auto simp: ENODEV_def ENOMEM_def)

lemma dfu_prepare_success_index:
  "dfu_prepare K P dp i km s = (0, dp', s') \<Longrightarrow>
   dfu_index s' = dfu_index s + 1 \<and> sint (dfu_index s + 1) < sint (max_dfus P)"
  by (rule dfu_prepare_cases[where K=K and i=i and P=P and s=s and dp=dp and km=km])
     (auto simp: ENODEV_def ENOMEM_def)

lemma run_prepares_count:
  "run_prepares K P cs s = Some s' \<Longrightarrow> sint (dfu_index s) < 2^31 - 1 \<Longrightarrow>
   sint (dfu_index s') = sint (dfu_index s) + int (length cs)"
proof (induction cs arbitrary: s)
  case Nil
  then show ?case by simp
next
  case (Cons c cs)
  obtain i km where c: "c = (i, km)" by (cases c)
  obtain r dp s1 where p: "dfu_prepare K P None i km s = (r, dp, s1)"
    by (cases "dfu_prepare K P None i km s")
  from Cons.prems(1) c p have r: "r = 0" and rest: "run_prepares K P cs s1 = Some s'"
    by (auto split: if_splits)
  from dfu_prepare_success_index[OF p[unfolded r]]
  have idx: "dfu_index s1 = dfu_index s + 1" and lt: "sint (dfu_index s + 1) < sint (max_dfus P)"
    by simp_all
  have step: "sint (dfu_index s1) = sint (dfu_index s) + 1"
    using idx sint_inc[OF Cons.prems(2)] by simp
  have "sint (dfu_index s1) < 2^31 - 1"
    using idx lt sint_lt_max by metis
  from Cons.IH[OF rest this] step show ?case by simp
qed

lemma cleanup_count:
  "- (2^31) < sint (dfu_index s) \<Longrightarrow> slot_count (dfu_cleanup i p s) = slot_count s - 1"
  by (simp add: slot_count_def dfu_cleanup_def atomic_dec_def sint_dec)

subsection \<open>The paths of \<^verbatim>\<open>dfu_submit_urb\<close>\<close>

lemma submit_accepted_early:
  assumes "urb ctrl = None \<longrightarrow> alloc_ok core" "submit_ret core = 0" "before_timeout core = Some c"
  shows "dfu_submit_urb K P dfudev ctrl core =
     (let u = usb_fill_control_urb (usbdev dfudev) (pipe ctrl) (req ctrl) (buff ctrl) (len ctrl);
          ctrl2 = deliver c (ctrl\<lparr>urb := Some u, urbdone := False, status := USB_DFU_ERROR_CODE K\<rparr>);
          ctrl3 = (if urb ctrl = None then ctrl2\<lparr>urb := None\<rparr> else ctrl2)
      in (Returns (c_status c, ctrl3),
          (if urb ctrl = None then [Usb_alloc_urb] else []) @
          [Usb_submit_urb u, Wait_for_completion_timeout (urb_timeout P),
           Ctrlurb_done (c_status c) (c_actual c)] @
          (if urb ctrl = None then [Usb_free_urb] else []) @
          (if c_status c \<noteq> 0 \<and> bRequest (req ctrl) \<noteq> USB_DFU_ABORT K
           then [Dev_err (URB_request_failed (bRequestType (req ctrl)) (bRequest (req ctrl)) (c_status c))]
           else [])))"
  using assms
  by (cases "buff ctrl"; cases "c_data c")
     (simp_all add: dfu_submit_urb_def Let_def deliver_def dfu_ctrlurb_done_def usb_write_buffer_def)

lemma submit_accepted_late:
  assumes "urb ctrl = None \<longrightarrow> alloc_ok core" "submit_ret core = 0" "before_timeout core = None"
     "after_unlink core = Some c"
  shows "dfu_submit_urb K P dfudev ctrl core =
     (let u = usb_fill_control_urb (usbdev dfudev) (pipe ctrl) (req ctrl) (buff ctrl) (len ctrl);
          ctrl2 = deliver c (ctrl\<lparr>urb := Some u, urbdone := False, status := USB_DFU_ERROR_CODE K\<rparr>);
          ctrl3 = (if urb ctrl = None then ctrl2\<lparr>urb := None\<rparr> else ctrl2)
      in (Returns (c_status c, ctrl3),
          (if urb ctrl = None then [Usb_alloc_urb] else []) @
          [Usb_submit_urb u, Wait_for_completion_timeout (urb_timeout P),
           Usb_unlink_urb, Wait_for_completion, Ctrlurb_done (c_status c) (c_actual c)] @
          (if bRequest (req ctrl) \<noteq> USB_DFU_ABORT K
           then [Dev_err (URB_cancelled (bRequestType (req ctrl)) (bRequest (req ctrl)))] else []) @
          (if urb ctrl = None then [Usb_free_urb] else []) @
          (if c_status c \<noteq> 0 \<and> bRequest (req ctrl) \<noteq> USB_DFU_ABORT K
           then [Dev_err (URB_request_failed (bRequestType (req ctrl)) (bRequest (req ctrl)) (c_status c))]
           else [])))"
  using assms
  by (cases "buff ctrl"; cases "c_data c")
     (simp_all add: dfu_submit_urb_def dfu_urb_timeout_def Let_def deliver_def dfu_ctrlurb_done_def usb_write_buffer_def)

lemma submit_accepted_never:
  assumes "urb ctrl = None \<longrightarrow> alloc_ok core" "submit_ret core = 0" "before_timeout core = None"
     "after_unlink core = None"
  shows "dfu_submit_urb K P dfudev ctrl core =
     (Blocks,
          (if urb ctrl = None then [Usb_alloc_urb] else []) @
          [Usb_submit_urb (usb_fill_control_urb (usbdev dfudev) (pipe ctrl) (req ctrl) (buff ctrl) (len ctrl)),
           Wait_for_completion_timeout (urb_timeout P),
           Usb_unlink_urb, Wait_for_completion])"
  using assms
  by (cases "urb ctrl") (simp_all add: dfu_submit_urb_def dfu_urb_timeout_def Let_def)

lemma submit_rejected:
  assumes "urb ctrl = None \<longrightarrow> alloc_ok core" "submit_ret core \<noteq> 0"
  shows "dfu_submit_urb K P dfudev ctrl core =
     (let u = usb_fill_control_urb (usbdev dfudev) (pipe ctrl) (req ctrl) (buff ctrl) (len ctrl);
          ctrl1 = ctrl\<lparr>urb := Some u, urbdone := False, status := USB_DFU_ERROR_CODE K\<rparr>;
          ctrl3 = (if urb ctrl = None then ctrl1\<lparr>urb := None\<rparr> else ctrl1)
      in (Returns (USB_DFU_ERROR_CODE K, ctrl3),
          (if urb ctrl = None then [Usb_alloc_urb] else []) @
          [Usb_submit_urb u,
           Dev_err (URB_submit_failed (bRequestType (req ctrl)) (bRequest (req ctrl)) (submit_ret core))] @
          (if urb ctrl = None then [Usb_free_urb] else []) @
          (if USB_DFU_ERROR_CODE K \<noteq> 0 \<and> bRequest (req ctrl) \<noteq> USB_DFU_ABORT K
           then [Dev_err (URB_request_failed (bRequestType (req ctrl)) (bRequest (req ctrl)) (USB_DFU_ERROR_CODE K))]
           else [])))"
  using assms
  by (cases "urb ctrl") (simp_all add: dfu_submit_urb_def Let_def)

lemma submit_no_urb:
  assumes "urb ctrl = None" "\<not> alloc_ok core"
  shows "dfu_submit_urb K P dfudev ctrl core =
     (Returns (- ENOMEM, ctrl), [Usb_alloc_urb, Dev_err Cannot_allocate_URB])"
  using assms
  by (simp add: dfu_submit_urb_def Let_def)

lemma valid_example [simp]: "valid_descriptor example_header (example_intf n)"
  by (simp add: valid_descriptor_def example_header_def example_intf_def)

lemma two_prepares:
  "\<exists>s. run_prepares example_header default_params
     [(example_intf 1, Some 100), (example_intf 2, Some 200)] (init_state 0) = Some s"
  by (simp add: dfu_prepare_def example_header_def example_intf_def default_params_def
      init_state_def Let_def atomic_inc_return_def)

subsection \<open>Casts and byte order\<close>

lemma ucast_int_u16: "(ucast (c :: c_int) :: u16) = word_of_int (sint c)"
  by (rule bit_word_eqI) (simp add: bit_simps bit_sint_iff)

lemma ucast_u16_int_u16: "(ucast (ucast (d :: u16) :: c_int) :: u16) = d"
  by (rule bit_word_eqI) (auto simp add: bit_simps)

lemma le16_to_cpu_cpu_to_le16: "le16_to_cpu (cpu_to_le16 x) = x"
  unfolding le16_to_cpu_def cpu_to_le16_def
  by (rule bit_word_eqI) (auto simp add: bit_simps)

lemma switch_tmout:
  "(ucast (if sint (cfg :: c_int) < uint (d :: u16) then cfg else (ucast d :: c_int)) :: u16) =
   word_of_int (min (uint d) (sint cfg))"
proof (cases "sint cfg < uint d")
  case True
  then show ?thesis by (simp add: min_def ucast_int_u16)
next
  case False
  then show ?thesis by (simp add: min_def ucast_u16_int_u16)
qed

lemma min_in_range:
  "0 \<le> sint (cfg :: c_int) \<Longrightarrow>
   min (uint (d :: u16)) (sint cfg) mod 2 ^ 16 = min (uint d) (sint cfg)"
  using uint_lt2p[of d] by (simp add: min_def)

lemma switch_request_wValue:
  "wValue (req (switch_request K P dev ctrl)) =
     cpu_to_le16 (word_of_int (min (uint (dettmout dev)) (sint (detach_timeout P))))"
  by (simp add: switch_request_def Let_def switch_tmout)

subsection \<open>What is submitted\<close>

lemma submit_trace_has_urb:
  assumes "urb ctrl = None \<longrightarrow> alloc_ok core"
  shows "Usb_submit_urb (usb_fill_control_urb (usbdev dev) (pipe ctrl) (req ctrl) (buff ctrl) (len ctrl))
           \<in> set (trace (dfu_submit_urb K P dev ctrl core))"
proof (cases "submit_ret core = 0")
  case False
  from submit_rejected[OF assms False] show ?thesis
    by (simp add: trace_def Let_def)
next
  case z: True
  show ?thesis
  proof (cases "before_timeout core")
    case (Some c)
    from submit_accepted_early[OF assms z Some] show ?thesis
      by (simp add: trace_def Let_def)
  next
    case n: None
    show ?thesis
    proof (cases "after_unlink core")
      case None
      from submit_accepted_never[OF assms z n None] show ?thesis
        by (simp add: trace_def)
    next
      case (Some c)
      from submit_accepted_late[OF assms z n Some] show ?thesis
        by (simp add: trace_def Let_def)
    qed
  qed
qed

lemma do_switch_trace:
  "set (trace (dfu_submit_urb K P dev (switch_request K P dev ctrl) core))
     \<subseteq> set (trace (dfu_do_switch K P dev ctrl core))"
  by (auto simp: dfu_do_switch_def trace_def split: prod.splits outcome.splits)

lemma switch_request_urb [simp]: "urb (switch_request K P dev ctrl) = None"
  by (simp add: switch_request_def Let_def)

subsection \<open>Completions\<close>

lemma get_state_request_fields [simp]:
  "urb (get_state_request K dev ctrl) = None"
  "buff (get_state_request K dev ctrl) = DfuState_buff"
  by (simp_all add: get_state_request_def)

lemma deliver_state_byte:
  "buff ctrl = DfuState_buff \<Longrightarrow> c_data c = b # bs \<Longrightarrow> dfuState (deliver c ctrl) = b"
  by (simp add: deliver_def dfu_ctrlurb_done_def usb_write_buffer_def)

lemma deliver_fields [simp]:
  "status (deliver c ctrl) = c_status c"
  "nxfer (deliver c ctrl) = c_actual c"
  "urbdone (deliver c ctrl)"
  "req (deliver c ctrl) = req ctrl"
  by (cases "buff ctrl"; cases "c_data c";
      simp add: deliver_def dfu_ctrlurb_done_def usb_write_buffer_def)+

lemma submit_completed:
  assumes "urb ctrl = None \<longrightarrow> alloc_ok core"
    and "submit_ret core = 0"
    and "before_timeout core = Some c \<or> before_timeout core = None \<and> after_unlink core = Some c"
  shows "fst (dfu_submit_urb K P dev ctrl core) = Returns (c_status c, completed K dev ctrl c)"
proof (cases "before_timeout core")
  case None
  with assms(3) have l: "after_unlink core = Some c" by simp
  show ?thesis
    by (simp add: submit_accepted_late[OF assms(1,2) None l] completed_def Let_def)
next
  case (Some c')
  with assms(3) have e: "before_timeout core = Some c" by simp
  show ?thesis
    by (simp add: submit_accepted_early[OF assms(1,2) e] completed_def Let_def)
qed

section \<open>The claims\<close>

subsection \<open>Construction failures\<close>

text \<open>
  Claim C6. When the functional descriptor is absent, or \<^verbatim>\<open>extralen\<close> is not the
  expected length, or the descriptor carries another type tag, \<^verbatim>\<open>dfu_prepare\<close> returns
  \<^verbatim>\<open>-ENODEV\<close> after logging the invalid descriptor; it allocates no device record, sets
  no driver data, leaves \<^verbatim>\<open>*dfudevp\<close> alone and does not touch the slot counter.
\<close>

theorem prepare_invalid_descriptor:
  "extra i = None \<or> extralen i \<noteq> USB_DFU_FUNC_DSCLEN K \<or>
     (\<exists>d. extra i = Some d \<and> dsctyp d \<noteq> USB_DFU_FUNC_DSCTYP K) \<Longrightarrow>
   (case dfu_prepare K P dp i km s of
      (retv, dp', s') \<Rightarrow>
        retv = - ENODEV \<and> retv \<noteq> 0 \<and> klog s' = klog s @ [Dev_err Invalid_descriptor] \<and>
        dp' = dp \<and> heap s' = heap s \<and> intfdata s' = intfdata s \<and>
        dfu_index s' = dfu_index s \<and> slot_count s' = slot_count s)"
  using dfu_prepare_invalid[of K i P dp km s] not_valid_descriptor_iff[of K i]
  by (simp add: slot_count_def ENODEV_def)

theorem prepare_invalid_descriptor_witness:
  "(case dfu_prepare example_header default_params None ((example_intf 1)\<lparr>extralen := 7\<rparr>)
           (Some 100) (init_state 0) of
      (retv, dp', s') \<Rightarrow>
        retv = - 19 \<and> klog s' = [Dev_err Invalid_descriptor] \<and> dp' = None \<and>
        heap s' 100 = None \<and> intfdata s' 1 = None \<and> dfu_index s' = - 1 \<and> slot_count s' = 0)"
  using prepare_invalid_descriptor[where i = "(example_intf 1)\<lparr>extralen := 7\<rparr>"
      and K = example_header and P = default_params and dp = None and km = "Some 100"
      and s = "init_state 0"]
  by (simp add: example_intf_def example_header_def init_state_def ENODEV_def slot_count_def
      split: prod.splits)

text \<open>
  Claim C10. Whenever \<^verbatim>\<open>dfu_prepare\<close> returns an error, the slot counter, the
  allocated records and the driver data are as before the call, and \<^verbatim>\<open>*dfudevp\<close> is
  unchanged or \<^verbatim>\<open>NULL\<close>. On the paths that took a slot (the descriptor is valid) the
  counter is the incremented value decremented again; that includes the failure of
  \<^verbatim>\<open>kmalloc\<close>, which is the only failure once the descriptor is valid and the
  incremented counter is below \<^verbatim>\<open>max_dfus\<close>, and returns \<^verbatim>\<open>-ENOMEM\<close>. The path of the
  invalid descriptor never increments the counter.
\<close>

theorem prepare_failure_rolls_back:
  "fst (dfu_prepare K P dp i km s) \<noteq> 0 \<Longrightarrow>
   (case dfu_prepare K P dp i km s of
      (retv, dp', s') \<Rightarrow>
        dfu_index s' = dfu_index s \<and> slot_count s' = slot_count s \<and>
        heap s' = heap s \<and> intfdata s' = intfdata s \<and> (dp' = dp \<or> dp' = None) \<and>
        (valid_descriptor K i \<longrightarrow>
           dfu_index s' = atomic_dec (atomic_inc_return (dfu_index s)) \<and>
           (sint (atomic_inc_return (dfu_index s)) < sint (max_dfus P)
              \<longrightarrow> km = None \<and> retv = - ENOMEM \<and> dp' = None)))"
  by (rule dfu_prepare_cases[where K=K and i=i and P=P and s=s and dp=dp and km=km])
    (simp_all add: slot_count_def atomic_inc_return_def atomic_dec_def)

theorem prepare_failure_rolls_back_witness:
  "(case dfu_prepare example_header default_params (Some 5) (example_intf 1) None (init_state 0) of
      (retv, dp', s') \<Rightarrow>
        retv = - 12 \<and> dfu_index s' = - 1 \<and> slot_count s' = 0 \<and>
        heap s' = Map.empty \<and> intfdata s' = Map.empty \<and> dp' = None)"
proof -
  have f: "fst (dfu_prepare example_header default_params (Some 5) (example_intf 1) None
             (init_state 0)) \<noteq> 0"
    by (simp add: dfu_prepare_success_iff)
  have a: "sint (atomic_inc_return (dfu_index (init_state 0))) < sint (max_dfus default_params)"
    by (simp add: atomic_inc_return_def init_state_def default_params_def)
  show ?thesis
    using prepare_failure_rolls_back[OF f] a
    by (simp add: init_state_def ENOMEM_def slot_count_def split: prod.splits)
qed

subsection \<open>The slot counter\<close>

text \<open>
  Claim C5, as the code has it. The number of slots in use is the counter plus one.
  From the empty pool, \<open>N\<close> calls of \<^verbatim>\<open>dfu_prepare\<close> that all succeed leave it at \<open>N\<close>;
  \<^verbatim>\<open>dfu_cleanup\<close> of a prepared device lowers it by exactly one; a call that finds the
  incremented counter at \<^verbatim>\<open>max_dfus\<close> or above logs that the maximum is reached,
  returns \<^verbatim>\<open>-ENODEV\<close> and leaves counter, records and driver data as they were; and on
  a valid descriptor \<^verbatim>\<open>dfu_prepare\<close> succeeds exactly when a slot is available and
  \<^verbatim>\<open>kmalloc\<close> returns memory for the record (the counter being below the largest
  \<^verbatim>\<open>int\<close>, where the increment would wrap).
\<close>

theorem slot_count_accounting:
  "(run_prepares K P cs (init_state dn) = Some s \<longrightarrow> slot_count s = int (length cs)) \<and>
   (0 < slot_count s1 \<longrightarrow> slot_count (dfu_cleanup i1 p s1) = slot_count s1 - 1) \<and>
   (valid_descriptor K i \<and> sint (max_dfus P) \<le> sint (atomic_inc_return (dfu_index s2)) \<longrightarrow>
      (case dfu_prepare K P dp i km s2 of
         (retv, dp', s') \<Rightarrow>
           retv = - ENODEV \<and> klog s' = klog s2 @ [Dev_err (Maximum_reached (max_dfus P))] \<and>
           dfu_index s' = dfu_index s2 \<and> slot_count s' = slot_count s2 \<and>
           heap s' = heap s2 \<and> intfdata s' = intfdata s2)) \<and>
   (valid_descriptor K i \<and> slot_count s3 < 2 ^ 31 \<longrightarrow>
      (fst (dfu_prepare K P dp i km s3) = 0 \<longleftrightarrow>
         slot_count s3 < sint (max_dfus P) \<and> km \<noteq> None))"
proof (intro conjI impI)
  assume r: "run_prepares K P cs (init_state dn) = Some s"
  have "sint (dfu_index (init_state dn)) < 2 ^ 31 - 1"
    by (simp add: init_state_def)
  from run_prepares_count[OF r this] show "slot_count s = int (length cs)"
    by (simp add: slot_count_def init_state_def)
next
  assume "0 < slot_count s1"
  then have "- (2 ^ 31) < sint (dfu_index s1)"
    by (simp add: slot_count_def)
  then show "slot_count (dfu_cleanup i1 p s1) = slot_count s1 - 1"
    by (rule cleanup_count)
next
  assume "valid_descriptor K i \<and> sint (max_dfus P) \<le> sint (atomic_inc_return (dfu_index s2))"
  then show "case dfu_prepare K P dp i km s2 of
         (retv, dp', s') \<Rightarrow>
           retv = - ENODEV \<and> klog s' = klog s2 @ [Dev_err (Maximum_reached (max_dfus P))] \<and>
           dfu_index s' = dfu_index s2 \<and> slot_count s' = slot_count s2 \<and>
           heap s' = heap s2 \<and> intfdata s' = intfdata s2"
    using dfu_prepare_full[of K i P s2 dp km]
    by (simp add: atomic_inc_return_def slot_count_def)
next
  assume a: "valid_descriptor K i \<and> slot_count s3 < 2 ^ 31"
  then have "sint (dfu_index s3) < 2 ^ 31 - 1"
    by (simp add: slot_count_def)
  then have "sint (dfu_index s3 + 1) = slot_count s3"
    by (simp add: sint_inc slot_count_def)
  with a show "fst (dfu_prepare K P dp i km s3) = 0 \<longleftrightarrow>
         slot_count s3 < sint (max_dfus P) \<and> km \<noteq> None"
    by (simp add: dfu_prepare_success_iff)
qed

theorem slot_count_accounting_witness:
  "slot_count (the (run_prepares example_header default_params
       [(example_intf 1, Some 100), (example_intf 2, Some 200)] (init_state 0))) = 2 \<and>
   slot_count (dfu_cleanup (example_intf 1) 100 ((init_state 0)\<lparr>dfu_index := 1\<rparr>)) = 1 \<and>
   fst (dfu_prepare example_header default_params None (example_intf 9) (Some 900)
          ((init_state 0)\<lparr>dfu_index := 7\<rparr>)) = - 19 \<and>
   dfu_index (snd (snd (dfu_prepare example_header default_params None (example_intf 9) (Some 900)
          ((init_state 0)\<lparr>dfu_index := 7\<rparr>)))) = 7 \<and>
   fst (dfu_prepare example_header default_params None (example_intf 9) (Some 900)
          ((init_state 0)\<lparr>dfu_index := 6\<rparr>)) = 0"
proof -
  let ?cs = "[(example_intf 1, Some 100), (example_intf 2, Some 200)]"
  let ?s = "the (run_prepares example_header default_params ?cs (init_state 0))"
  note t = slot_count_accounting[where K = example_header and P = default_params
      and cs = ?cs and dn = 0 and s = ?s and ?s1.0 = "(init_state 0)\<lparr>dfu_index := 1\<rparr>"
      and ?i1.0 = "example_intf 1" and p = 100 and i = "example_intf 9" and dp = None
      and km = "Some 900" and ?s2.0 = "(init_state 0)\<lparr>dfu_index := 7\<rparr>"
      and ?s3.0 = "(init_state 0)\<lparr>dfu_index := 6\<rparr>"]
  have r: "run_prepares example_header default_params ?cs (init_state 0) = Some ?s"
    using two_prepares by auto
  have c1: "slot_count ?s = 2"
    using t r by simp
  have c2: "slot_count (dfu_cleanup (example_intf 1) 100 ((init_state 0)\<lparr>dfu_index := 1\<rparr>)) = 1"
    using t by (simp add: slot_count_def)
  have full: "sint (max_dfus default_params)
      \<le> sint (atomic_inc_return (dfu_index ((init_state 0)\<lparr>dfu_index := 7\<rparr>)))"
    by (simp add: default_params_def atomic_inc_return_def)
  have c3: "fst (dfu_prepare example_header default_params None (example_intf 9) (Some 900)
          ((init_state 0)\<lparr>dfu_index := 7\<rparr>)) = - 19 \<and>
      dfu_index (snd (snd (dfu_prepare example_header default_params None (example_intf 9) (Some 900)
          ((init_state 0)\<lparr>dfu_index := 7\<rparr>)))) = 7"
    using t full by (simp add: ENODEV_def split: prod.splits)
  have c4: "fst (dfu_prepare example_header default_params None (example_intf 9) (Some 900)
          ((init_state 0)\<lparr>dfu_index := 6\<rparr>)) = 0"
    using t by (simp add: slot_count_def default_params_def)
  from c1 c2 c3 c4 show ?thesis by simp
qed

text \<open>
  Claim C5 as stated fails in its last part: with a valid descriptor and all eight
  slots free, \<^verbatim>\<open>dfu_prepare\<close> still fails, with \<^verbatim>\<open>-ENOMEM\<close>, when \<^verbatim>\<open>kmalloc\<close> returns
  \<^verbatim>\<open>NULL\<close>.
\<close>

theorem slot_available_prepare_fails_counterexample:
  "valid_descriptor example_header (example_intf 1) \<and>
   slot_count (init_state 0) = 0 \<and> sint (max_dfus default_params) = 8 \<and>
   fst (dfu_prepare example_header default_params None (example_intf 1) None (init_state 0)) = - 12"
  using dfu_prepare_nomem[where K = example_header and i = "example_intf 1"
      and P = default_params and s = "init_state 0" and dp = None]
  by (simp add: slot_count_def init_state_def default_params_def ENOMEM_def)

text \<open>
  Claim C1 asks that no two live devices share an index. The counter only counts:
  after two attachments (indices 0 and 1), the detachment of the first and a third
  attachment, the third device is given index 1 while the second, still attached,
  holds it; both records are allocated and registered, and their device numbers
  coincide.
\<close>

theorem live_index_reused:
  "intfdata reuse_scenario 2 = Some 200 \<and> intfdata reuse_scenario 3 = Some 300 \<and>
   map_option index (heap reuse_scenario 200) = Some 1 \<and>
   map_option index (heap reuse_scenario 300) = Some 1 \<and>
   map_option devnum (heap reuse_scenario 200) = map_option devnum (heap reuse_scenario 300) \<and>
   slot_count reuse_scenario = 2"
  by (simp add: reuse_scenario_def dfu_prepare_def dfu_cleanup_def example_header_def
      example_intf_def default_params_def init_state_def Let_def atomic_inc_return_def
      atomic_dec_def slot_count_def)

subsection \<open>The requests\<close>

text \<open>
  Claim C7. The \<^verbatim>\<open>wValue\<close> of the detach request of \<^verbatim>\<open>dfu_do_switch\<close> is the smaller of
  the device's detach timeout and the configured \<^verbatim>\<open>detach_timeout\<close>, as the two bytes of
  its 16-bit little-endian encoding, low byte first; that is the setup packet of the urb
  that is submitted. Read back as a number it is that minimum modulo \<open>2 ^ 16\<close>, and the
  minimum itself whenever the configured timeout is not negative. A device timeout of
  5000 with the default 2000 gives the bytes D0 07, that is 2000.
\<close>

theorem switch_wValue_is_min:
  "wValue (req (switch_request K P dev ctrl)) =
     cpu_to_le16 (word_of_int (min (uint (dettmout dev)) (sint (detach_timeout P)))) \<and>
   uint (le16_to_cpu (wValue (req (switch_request K P dev ctrl)))) =
     min (uint (dettmout dev)) (sint (detach_timeout P)) mod 2 ^ 16 \<and>
   (0 \<le> sint (detach_timeout P) \<longrightarrow>
      uint (le16_to_cpu (wValue (req (switch_request K P dev ctrl)))) =
        min (uint (dettmout dev)) (sint (detach_timeout P))) \<and>
   (alloc_ok core \<longrightarrow>
      (\<exists>u. Usb_submit_urb u \<in> set (trace (dfu_do_switch K P dev ctrl core)) \<and>
           setup_packet u = req (switch_request K P dev ctrl)))"
proof (intro conjI impI)
  show w: "wValue (req (switch_request K P dev ctrl)) =
     cpu_to_le16 (word_of_int (min (uint (dettmout dev)) (sint (detach_timeout P))))"
    by (rule switch_request_wValue)
  show m: "uint (le16_to_cpu (wValue (req (switch_request K P dev ctrl)))) =
     min (uint (dettmout dev)) (sint (detach_timeout P)) mod 2 ^ 16"
    by (simp add: w le16_to_cpu_cpu_to_le16 uint_word_of_int)
  show "uint (le16_to_cpu (wValue (req (switch_request K P dev ctrl)))) =
        min (uint (dettmout dev)) (sint (detach_timeout P))"
    if "0 \<le> sint (detach_timeout P)"
    using m min_in_range[OF that] by simp
  show "\<exists>u. Usb_submit_urb u \<in> set (trace (dfu_do_switch K P dev ctrl core)) \<and>
           setup_packet u = req (switch_request K P dev ctrl)"
    if "alloc_ok core"
  proof -
    let ?c = "switch_request K P dev ctrl"
    let ?u = "usb_fill_control_urb (usbdev dev) (pipe ?c) (req ?c) (buff ?c) (len ?c)"
    have "Usb_submit_urb ?u \<in> set (trace (dfu_submit_urb K P dev ?c core))"
      using that by (intro submit_trace_has_urb) simp
    then have "Usb_submit_urb ?u \<in> set (trace (dfu_do_switch K P dev ctrl core))"
      using do_switch_trace by blast
    moreover have "setup_packet ?u = req ?c"
      by (simp add: usb_fill_control_urb_def)
    ultimately show ?thesis by blast
  qed
qed

theorem switch_wValue_is_min_witness:
  "wValue (req (switch_request example_header default_params example_dev stale_ctrl)) = (0xD0, 0x07) \<and>
   uint (le16_to_cpu (wValue (req (switch_request example_header default_params example_dev
      stale_ctrl)))) = 2000 \<and>
   (\<exists>u. Usb_submit_urb u \<in> set (trace (dfu_do_switch example_header default_params example_dev
            stale_ctrl example_core)) \<and>
        wValue (setup_packet u) = (0xD0, 0x07))"
proof -
  note t = switch_wValue_is_min[where K = example_header and P = default_params
      and dev = example_dev and ctrl = stale_ctrl and core = example_core]
  have nonneg: "0 \<le> sint (detach_timeout default_params)"
    by (simp add: default_params_def)
  have ok: "alloc_ok example_core"
    by (simp add: example_core_def)
  have m: "min (uint (dettmout example_dev)) (sint (detach_timeout default_params)) = 2000"
    by (simp add: example_dev_def default_params_def)
  have w: "wValue (req (switch_request example_header default_params example_dev stale_ctrl))
      = (0xD0, 0x07)"
    using t m by (simp add: cpu_to_le16_def)
  have v: "uint (le16_to_cpu (wValue (req (switch_request example_header default_params
      example_dev stale_ctrl)))) = 2000"
    using t nonneg m by (simp add: le16_to_cpu_cpu_to_le16)
  have s: "\<exists>u. Usb_submit_urb u \<in> set (trace (dfu_do_switch example_header default_params
      example_dev stale_ctrl example_core)) \<and> wValue (setup_packet u) = (0xD0, 0x07)"
    using t ok w by auto
  from w v s show ?thesis by blast
qed

text \<open>
  Claim C4 asks that every operation determines the whole setup packet. \<^verbatim>\<open>dfu_abort\<close>
  does not assign \<^verbatim>\<open>wIndex\<close>: on a container last used for another interface it submits
  a setup packet whose \<^verbatim>\<open>wIndex\<close> is the one left there (here 0x1234) and not the
  interface number of the device (here 0), which \<^verbatim>\<open>dfu_clr_status\<close> and the other
  three operations do assign.
\<close>

theorem abort_keeps_stale_wIndex:
  "wIndex (req stale_ctrl) = (0x34, 0x12) \<and>
   cpu_to_le16 (intfnum example_dev) = (0, 0) \<and>
   wIndex (req (clr_status_request example_header example_dev stale_ctrl)) = (0, 0) \<and>
   wIndex (req (abort_request example_header example_dev stale_ctrl)) = (0x34, 0x12) \<and>
   trace (dfu_abort example_header default_params example_dev stale_ctrl
            (example_core\<lparr>before_timeout := Some \<lparr>c_status = 0, c_actual = 0, c_data = []\<rparr>\<rparr>)) =
     [Usb_alloc_urb,
      Usb_submit_urb \<lparr>urb_dev = 0, urb_pipe = Snd_ctrl 0 0,
         setup_packet = \<lparr>bRequestType = 0x21, bRequest = 6, wValue = (0, 0),
                          wIndex = (0x34, 0x12), wLength = (0, 0)\<rparr>,
         transfer_buffer = Null_buff, transfer_buffer_length = 0\<rparr>,
      Wait_for_completion_timeout 200, Ctrlurb_done 0 0, Usb_free_urb]"
  by (simp add: dfu_abort_def abort_request_def clr_status_request_def dfu_submit_urb_def
      stale_ctrl_def example_dev_def example_header_def example_core_def default_params_def
      cpu_to_le16_def usb_fill_control_urb_def usb_sndctrlpipe_def trace_def Let_def
      deliver_def dfu_ctrlurb_done_def usb_write_buffer_def)

subsection \<open>The transfer engine\<close>

text \<open>
  Claim C9. When the urb was allocated (or supplied), the submission accepted and the
  completion callback runs within the bounded wait, \<^verbatim>\<open>dfu_submit_urb\<close> returns the status
  the callback stored, the container holds that status and the byte count the callback
  stored, and the only wait is the bounded one: nothing is unlinked.
\<close>

theorem submit_returns_callback_result:
  assumes "urb ctrl = None \<longrightarrow> alloc_ok core"
    and "submit_ret core = 0"
    and "before_timeout core = Some c"
  shows "retval (dfu_submit_urb K P dev ctrl core) = Some (c_status c) \<and>
    map_option status (final_ctrl (dfu_submit_urb K P dev ctrl core)) = Some (c_status c) \<and>
    map_option nxfer (final_ctrl (dfu_submit_urb K P dev ctrl core)) = Some (c_actual c) \<and>
    sync_events (trace (dfu_submit_urb K P dev ctrl core)) =
      [Wait_for_completion_timeout (urb_timeout P)] \<and>
    Ctrlurb_done (c_status c) (c_actual c) \<in> set (trace (dfu_submit_urb K P dev ctrl core))"
  by (simp add: submit_accepted_early[OF assms] Let_def retval_def final_ctrl_def trace_def
      sync_events_def)

theorem submit_returns_callback_result_witness:
  "retval (dfu_submit_urb example_header default_params example_dev stale_ctrl
     (example_core\<lparr>before_timeout := Some \<lparr>c_status = - 32, c_actual = 3, c_data = [1, 2, 3]\<rparr>\<rparr>))
     = Some (- 32) \<and>
   map_option nxfer (final_ctrl (dfu_submit_urb example_header default_params example_dev stale_ctrl
     (example_core\<lparr>before_timeout := Some \<lparr>c_status = - 32, c_actual = 3, c_data = [1, 2, 3]\<rparr>\<rparr>)))
     = Some 3"
  using submit_returns_callback_result[where ctrl = stale_ctrl
      and core = "example_core\<lparr>before_timeout := Some \<lparr>c_status = - 32, c_actual = 3, c_data = [1, 2, 3]\<rparr>\<rparr>"
      and c = "\<lparr>c_status = - 32, c_actual = 3, c_data = [1, 2, 3]\<rparr>"
      and K = example_header and P = default_params and dev = example_dev]
  by (simp add: example_core_def)

text \<open>
  Claim C2. When the submission was accepted and the bounded wait ends with no
  completion, the waits and cancellations of \<^verbatim>\<open>dfu_submit_urb\<close> are, in this order, the
  bounded wait, one \<^verbatim>\<open>usb_unlink_urb\<close> and one \<^verbatim>\<open>wait_for_completion\<close>, which has no
  timeout. If the callback never runs the call never returns: it stays in that wait.
  If it runs, the call returns the status the callback stored, after the callback:
  the completion is signalled in the container returned, and the callback follows the
  wait directly in the events of the call.
\<close>

theorem submit_timeout_unlinks_and_waits:
  assumes "urb ctrl = None \<longrightarrow> alloc_ok core"
    and "submit_ret core = 0"
    and "before_timeout core = None"
  shows "sync_events (trace (dfu_submit_urb K P dev ctrl core)) =
      [Wait_for_completion_timeout (urb_timeout P), Usb_unlink_urb, Wait_for_completion] \<and>
    count_list (trace (dfu_submit_urb K P dev ctrl core)) Usb_unlink_urb = 1 \<and>
    (after_unlink core = None \<longrightarrow>
       fst (dfu_submit_urb K P dev ctrl core) = Blocks \<and>
       last (trace (dfu_submit_urb K P dev ctrl core)) = Wait_for_completion) \<and>
    (\<forall>c. after_unlink core = Some c \<longrightarrow>
       retval (dfu_submit_urb K P dev ctrl core) = Some (c_status c) \<and>
       map_option urbdone (final_ctrl (dfu_submit_urb K P dev ctrl core)) = Some True \<and>
       map_option nxfer (final_ctrl (dfu_submit_urb K P dev ctrl core)) = Some (c_actual c) \<and>
       (\<exists>pre post. trace (dfu_submit_urb K P dev ctrl core) =
          pre @ [Usb_unlink_urb, Wait_for_completion, Ctrlurb_done (c_status c) (c_actual c)] @ post))"
proof (cases "after_unlink core")
  case None
  show ?thesis
    by (simp add: submit_accepted_never[OF assms None] None trace_def sync_events_def)
next
  case (Some c)
  let ?u = "usb_fill_control_urb (usbdev dev) (pipe ctrl) (req ctrl) (buff ctrl) (len ctrl)"
  let ?pre = "(if urb ctrl = None then [Usb_alloc_urb] else []) @
          [Usb_submit_urb ?u, Wait_for_completion_timeout (urb_timeout P)]"
  let ?post = "(if bRequest (req ctrl) \<noteq> USB_DFU_ABORT K
           then [Dev_err (URB_cancelled (bRequestType (req ctrl)) (bRequest (req ctrl)))] else []) @
          (if urb ctrl = None then [Usb_free_urb] else []) @
          (if c_status c \<noteq> 0 \<and> bRequest (req ctrl) \<noteq> USB_DFU_ABORT K
           then [Dev_err (URB_request_failed (bRequestType (req ctrl)) (bRequest (req ctrl)) (c_status c))]
           else [])"
  note l = submit_accepted_late[OF assms Some, of K P dev]
  have tr: "trace (dfu_submit_urb K P dev ctrl core) =
      ?pre @ [Usb_unlink_urb, Wait_for_completion, Ctrlurb_done (c_status c) (c_actual c)] @ ?post"
    by (simp add: l Let_def trace_def)
  have a: "sync_events (trace (dfu_submit_urb K P dev ctrl core)) =
      [Wait_for_completion_timeout (urb_timeout P), Usb_unlink_urb, Wait_for_completion]"
    by (simp add: tr sync_events_def)
  have b: "count_list (trace (dfu_submit_urb K P dev ctrl core)) Usb_unlink_urb = 1"
    by (simp add: tr)
  have r: "retval (dfu_submit_urb K P dev ctrl core) = Some (c_status c) \<and>
       map_option urbdone (final_ctrl (dfu_submit_urb K P dev ctrl core)) = Some True \<and>
       map_option nxfer (final_ctrl (dfu_submit_urb K P dev ctrl core)) = Some (c_actual c)"
    by (simp add: l Let_def retval_def final_ctrl_def)
  have ex: "\<exists>pre post. trace (dfu_submit_urb K P dev ctrl core) =
      pre @ [Usb_unlink_urb, Wait_for_completion, Ctrlurb_done (c_status c) (c_actual c)] @ post"
    using tr by blast
  from a b r ex Some show ?thesis by simp
qed


theorem submit_timeout_unlinks_and_waits_witness:
  "sync_events (trace (dfu_submit_urb example_header default_params example_dev stale_ctrl
      (example_core\<lparr>after_unlink := Some \<lparr>c_status = - 2, c_actual = 0, c_data = []\<rparr>\<rparr>))) =
      [Wait_for_completion_timeout 200, Usb_unlink_urb, Wait_for_completion] \<and>
   count_list (trace (dfu_submit_urb example_header default_params example_dev stale_ctrl
      (example_core\<lparr>after_unlink := Some \<lparr>c_status = - 2, c_actual = 0, c_data = []\<rparr>\<rparr>)))
      Usb_unlink_urb = 1 \<and>
   retval (dfu_submit_urb example_header default_params example_dev stale_ctrl
      (example_core\<lparr>after_unlink := Some \<lparr>c_status = - 2, c_actual = 0, c_data = []\<rparr>\<rparr>)) =
      Some (- 2) \<and>
   fst (dfu_submit_urb example_header default_params example_dev stale_ctrl example_core) = Blocks"
proof -
  let ?c = "\<lparr>c_status = - 2, c_actual = 0, c_data = []\<rparr> :: completion"
  note late = submit_timeout_unlinks_and_waits[where ctrl = stale_ctrl
      and core = "example_core\<lparr>after_unlink := Some ?c\<rparr>"
      and K = example_header and P = default_params and dev = example_dev]
  note never = submit_timeout_unlinks_and_waits[where ctrl = stale_ctrl
      and core = example_core and K = example_header and P = default_params and dev = example_dev]
  have 1: "sync_events (trace (dfu_submit_urb example_header default_params example_dev stale_ctrl
      (example_core\<lparr>after_unlink := Some ?c\<rparr>))) =
      [Wait_for_completion_timeout 200, Usb_unlink_urb, Wait_for_completion] \<and>
    count_list (trace (dfu_submit_urb example_header default_params example_dev stale_ctrl
      (example_core\<lparr>after_unlink := Some ?c\<rparr>))) Usb_unlink_urb = 1 \<and>
    retval (dfu_submit_urb example_header default_params example_dev stale_ctrl
      (example_core\<lparr>after_unlink := Some ?c\<rparr>)) = Some (- 2)"
    using late by (simp add: example_core_def default_params_def)
  have 2: "fst (dfu_submit_urb example_header default_params example_dev stale_ctrl example_core)
      = Blocks"
    using never by (simp add: example_core_def)
  from 1 2 show ?thesis by simp
qed

text \<open>
  Claim C3, as the code has it. When \<^verbatim>\<open>usb_submit_urb\<close> returns an error,
  \<^verbatim>\<open>dfu_submit_urb\<close> waits for nothing and unlinks nothing, logs the error code, and
  returns \<^verbatim>\<open>ctrl->status\<close>, which still holds \<^verbatim>\<open>USB_DFU_ERROR_CODE\<close>, stored there before
  the submission; the callback has not run and the byte count is untouched.
\<close>

theorem submit_rejected_returns_sentinel:
  assumes "urb ctrl = None \<longrightarrow> alloc_ok core"
    and "submit_ret core \<noteq> 0"
  shows "retval (dfu_submit_urb K P dev ctrl core) = Some (USB_DFU_ERROR_CODE K) \<and>
    sync_events (trace (dfu_submit_urb K P dev ctrl core)) = [] \<and>
    Dev_err (URB_submit_failed (bRequestType (req ctrl)) (bRequest (req ctrl)) (submit_ret core))
      \<in> set (trace (dfu_submit_urb K P dev ctrl core)) \<and>
    map_option status (final_ctrl (dfu_submit_urb K P dev ctrl core)) = Some (USB_DFU_ERROR_CODE K) \<and>
    map_option urbdone (final_ctrl (dfu_submit_urb K P dev ctrl core)) = Some False \<and>
    map_option nxfer (final_ctrl (dfu_submit_urb K P dev ctrl core)) = Some (nxfer ctrl)"
  by (simp add: submit_rejected[OF assms] Let_def retval_def final_ctrl_def trace_def
      sync_events_def)

theorem submit_rejected_returns_sentinel_witness:
  "retval (dfu_submit_urb example_header default_params example_dev stale_ctrl
      (example_core\<lparr>submit_ret := - 19\<rparr>)) = Some 65536 \<and>
   sync_events (trace (dfu_submit_urb example_header default_params example_dev stale_ctrl
      (example_core\<lparr>submit_ret := - 19\<rparr>))) = [] \<and>
   Dev_err (URB_submit_failed 0xa1 3 (- 19))
      \<in> set (trace (dfu_submit_urb example_header default_params example_dev stale_ctrl
      (example_core\<lparr>submit_ret := - 19\<rparr>)))"
  using submit_rejected_returns_sentinel[where ctrl = stale_ctrl
      and core = "example_core\<lparr>submit_ret := - 19\<rparr>"
      and K = example_header and P = default_params and dev = example_dev]
  by (simp add: example_core_def example_header_def stale_ctrl_def)

text \<open>
  Claim C3 as stated fails: the code \<^verbatim>\<open>usb_submit_urb\<close> returned is logged, not
  returned. A submission rejected with -19 and one rejected with -12 return the same
  value, which is not -19.
\<close>

theorem submit_rejection_code_not_returned_counterexample:
  "submit_ret (example_core\<lparr>submit_ret := - 19\<rparr>) = - 19 \<and>
   retval (dfu_submit_urb example_header default_params example_dev stale_ctrl
      (example_core\<lparr>submit_ret := - 19\<rparr>)) \<noteq> Some (- 19) \<and>
   retval (dfu_submit_urb example_header default_params example_dev stale_ctrl
      (example_core\<lparr>submit_ret := - 19\<rparr>)) =
   retval (dfu_submit_urb example_header default_params example_dev stale_ctrl
      (example_core\<lparr>submit_ret := - 12\<rparr>))"
  by (simp add: dfu_submit_urb_def retval_def Let_def example_core_def example_header_def
      stale_ctrl_def)

text \<open>
  Claim C8. When the transfer of \<^verbatim>\<open>dfu_get_state\<close> completes with status 0 and the one
  byte \<open>b\<close>, within the bounded wait or after the unlink, the call returns \<open>b\<close> widened
  to \<^verbatim>\<open>int\<close>; when it completes with another status the call returns that status. In
  general a non-zero result of \<^verbatim>\<open>dfu_submit_urb\<close> is returned as it is, and a zero is
  replaced by the state byte of the container. A response byte 2 gives 2.
\<close>

theorem get_state_returns_state_or_error:
  "(alloc_ok core \<and> submit_ret core = 0 \<and>
      (before_timeout core = Some c \<or> before_timeout core = None \<and> after_unlink core = Some c) \<and>
      c_status c = 0 \<and> c_data c = [b]
      \<longrightarrow> retval (dfu_get_state K P dev ctrl core) = Some (ucast b)) \<and>
   (alloc_ok core \<and> submit_ret core = 0 \<and>
      (before_timeout core = Some c \<or> before_timeout core = None \<and> after_unlink core = Some c) \<and>
      c_status c \<noteq> 0
      \<longrightarrow> retval (dfu_get_state K P dev ctrl core) = Some (c_status c)) \<and>
   (\<forall>r ctrl'. fst (dfu_submit_urb K P dev (get_state_request K dev ctrl) core) = Returns (r, ctrl')
      \<longrightarrow> retval (dfu_get_state K P dev ctrl core) =
            Some (if r = 0 then ucast (dfuState ctrl') else r))"
proof (intro conjI impI allI)
  let ?g = "get_state_request K dev ctrl"
  show "retval (dfu_get_state K P dev ctrl core) = Some (ucast b)"
    if a: "alloc_ok core \<and> submit_ret core = 0 \<and>
      (before_timeout core = Some c \<or> before_timeout core = None \<and> after_unlink core = Some c) \<and>
      c_status c = 0 \<and> c_data c = [b]"
  proof -
    from a have "fst (dfu_submit_urb K P dev ?g core) = Returns (c_status c, completed K dev ?g c)"
      by (intro submit_completed) simp_all
    with a show ?thesis
      by (cases "dfu_submit_urb K P dev ?g core")
        (simp add: dfu_get_state_def retval_def completed_def Let_def deliver_state_byte)
  qed
  show "retval (dfu_get_state K P dev ctrl core) = Some (c_status c)"
    if a: "alloc_ok core \<and> submit_ret core = 0 \<and>
      (before_timeout core = Some c \<or> before_timeout core = None \<and> after_unlink core = Some c) \<and>
      c_status c \<noteq> 0"
  proof -
    from a have "fst (dfu_submit_urb K P dev ?g core) = Returns (c_status c, completed K dev ?g c)"
      by (intro submit_completed) simp_all
    with a show ?thesis
      by (cases "dfu_submit_urb K P dev ?g core") (simp add: dfu_get_state_def retval_def)
  qed
  show "retval (dfu_get_state K P dev ctrl core) =
            Some (if r = 0 then ucast (dfuState ctrl') else r)"
    if "fst (dfu_submit_urb K P dev ?g core) = Returns (r, ctrl')" for r ctrl'
    using that
    by (cases "dfu_submit_urb K P dev ?g core") (simp add: dfu_get_state_def retval_def)
qed

theorem get_state_returns_state_or_error_witness:
  "retval (dfu_get_state example_header default_params example_dev stale_ctrl
      (example_core\<lparr>before_timeout := Some \<lparr>c_status = 0, c_actual = 1, c_data = [2]\<rparr>\<rparr>)) = Some 2 \<and>
   retval (dfu_get_state example_header default_params example_dev stale_ctrl
      (example_core\<lparr>before_timeout := Some \<lparr>c_status = - 32, c_actual = 0, c_data = []\<rparr>\<rparr>))
      = Some (- 32)"
proof -
  note ok = get_state_returns_state_or_error[where K = example_header and P = default_params
      and dev = example_dev and ctrl = stale_ctrl and b = 2
      and c = "\<lparr>c_status = 0, c_actual = 1, c_data = [2]\<rparr>"
      and core = "example_core\<lparr>before_timeout := Some \<lparr>c_status = 0, c_actual = 1, c_data = [2]\<rparr>\<rparr>"]
  note bad = get_state_returns_state_or_error[where K = example_header and P = default_params
      and dev = example_dev and ctrl = stale_ctrl and b = 0
      and c = "\<lparr>c_status = - 32, c_actual = 0, c_data = []\<rparr>"
      and core = "example_core\<lparr>before_timeout := Some \<lparr>c_status = - 32, c_actual = 0, c_data = []\<rparr>\<rparr>"]
  have 1: "retval (dfu_get_state example_header default_params example_dev stale_ctrl
      (example_core\<lparr>before_timeout := Some \<lparr>c_status = 0, c_actual = 1, c_data = [2]\<rparr>\<rparr>)) = Some 2"
    using ok by (simp add: example_core_def)
  have 2: "retval (dfu_get_state example_header default_params example_dev stale_ctrl
      (example_core\<lparr>before_timeout := Some \<lparr>c_status = - 32, c_actual = 0, c_data = []\<rparr>\<rparr>))
      = Some (- 32)"
    using bad by (simp add: example_core_def)
  from 1 2 show ?thesis by simp
qed

subsection \<open>Further properties\<close>

text \<open>
  When the container brings no urb and \<^verbatim>\<open>usb_alloc_urb\<close> finds no memory,
  \<^verbatim>\<open>dfu_submit_urb\<close> logs it and returns \<^verbatim>\<open>-ENOMEM\<close>: nothing is submitted, nothing is
  waited for, and the container is as it was.
\<close>

theorem submit_without_urb_memory:
  assumes "urb ctrl = None" and "\<not> alloc_ok core"
  shows "retval (dfu_submit_urb K P dev ctrl core) = Some (- ENOMEM) \<and>
    final_ctrl (dfu_submit_urb K P dev ctrl core) = Some ctrl \<and>
    trace (dfu_submit_urb K P dev ctrl core) = [Usb_alloc_urb, Dev_err Cannot_allocate_URB]"
  by (simp add: submit_no_urb[OF assms] retval_def final_ctrl_def trace_def)

theorem submit_without_urb_memory_witness:
  "retval (dfu_submit_urb example_header default_params example_dev stale_ctrl
     (example_core\<lparr>alloc_ok := False\<rparr>)) = Some (- 12)"
  using submit_without_urb_memory[where ctrl = stale_ctrl
      and core = "example_core\<lparr>alloc_ok := False\<rparr>"
      and K = example_header and P = default_params and dev = example_dev]
  by (simp add: stale_ctrl_def example_core_def ENOMEM_def)

text \<open>
  The example of the specification: on the empty pool of eight slots, the interface
  with the descriptor of tag 0x21, length 9, attributes 0x0D, timeout 255 and transfer
  size 1024 is prepared with index 0 and these fields, registered as the driver data of
  the interface, and one slot is in use; \<^verbatim>\<open>dfu_cleanup\<close> frees the record, clears the
  driver data and brings the slots in use back to 0.
\<close>

theorem attach_detach_example:
  "(case dfu_prepare example_header default_params None (example_intf 1) (Some 100) (init_state 0) of
      (retv, dp, s) \<Rightarrow>
        retv = 0 \<and> dp = Some 100 \<and> intfdata s 1 = Some 100 \<and> slot_count s = 1 \<and>
        map_option index (heap s 100) = Some 0 \<and>
        map_option attr (heap s 100) = Some 0x0D \<and>
        map_option dettmout (heap s 100) = Some 255 \<and>
        map_option xfersize (heap s 100) = Some 1024 \<and>
        slot_count (dfu_cleanup (example_intf 1) 100 s) = 0 \<and>
        heap (dfu_cleanup (example_intf 1) 100 s) 100 = None \<and>
        intfdata (dfu_cleanup (example_intf 1) 100 s) 1 = None)"
  by (simp add: dfu_prepare_def dfu_cleanup_def example_header_def example_intf_def
      default_params_def init_state_def Let_def atomic_inc_return_def atomic_dec_def
      slot_count_def le16_to_cpu_def)


end
